theory Spec2Isabelle
  imports Complex_Main "HOL-Library.Word"
begin

section \<open>Data model (structs.go)\<close>

text \<open>
  Go's \<open>float64\<close> amounts, prices and percentages are modelled as \<open>real\<close>: every
  arithmetic operation is exact. Values read from JSON are finite, and the thresholds
  the code compares with (\<open>-11.0\<close>, \<open>-10.0\<close>, \<open>-5.0\<close>, \<open>-4.5\<close>, \<open>0\<close>) are exactly
  representable, so comparisons agree with the program; sums, products and quotients
  agree with it up to the rounding of binary floating point, which is not modelled.
  Go's \<open>int64\<close> and (on 64-bit targets) \<open>int\<close> are \<open>64 word\<close>, so \<open>+ 1\<close> wraps.
  Fields of type \<open>time.Time\<close> (\<open>BuyTime\<close>, \<open>StartTime\<close>) are left out: the clock
  is not modelled. \<open>CompletedTrades\<close> and \<open>Stats\<close> of \<open>TradingBot\<close> are left out:
  no function below reads or writes them.
\<close>

record OptimizedTicker =
  Symbol :: string
  LastPrice :: real
  PriceChangePercent :: real
  PercentChange24h :: real

record TradingPosition =
  ID :: "64 word"
  Symbol :: string
  BuyPrice :: real
  Quantity :: real
  InvestedAmount :: real
  TargetSellPrice :: real
  DropPercentage :: real
  CurrentValue :: real
  SellOrderID :: "64 word"
  HasActiveSellOrder :: bool

record BinanceConfig =
  APIKey :: string
  SecretKey :: string
  BaseURL :: string

text \<open>One element of \<open>OrderResponse.Fills\<close>; the commission fields are never read.\<close>

record Fill =
  Price :: string
  Qty :: string

text \<open>
  \<open>OrderResponse\<close>, with the fields \<open>executeBuy\<close> reads. The numeric fields arrive
  as decimal strings.
\<close>

record OrderResponse =
  OrderID :: "64 word"
  ExecutedQty :: string
  Fills :: "Fill list"

record SymbolFilters =
  StepSize :: string
  TickSize :: string

record TradingBot =
  TotalBudget :: real
  AvailableBudget :: real
  InvestmentAmount :: real
  Positions :: "TradingPosition list"
  WatchList :: "OptimizedTicker list"
  NextPositionID :: "64 word"
  BinanceConfig :: BinanceConfig

section \<open>The exchange and the trace of effects\<close>

text \<open>
  What \<open>executeBuy\<close> does beyond changing the bot is recorded in a trace: each call
  of a gateway function (\<open>executeBuyOrder\<close>, \<open>getSymbolFilters\<close>,
  \<open>executeLimitSellOrder\<close>) with its arguments and each \<open>time.Sleep\<close> with its
  seconds, in order. The exchange behind the gateway is any function from the trace so
  far and the request to an answer, so it may refuse one attempt and accept the next. An
  answer is \<open>Inl\<close> of an error message (transport failure, status other than 200,
  malformed JSON) or \<open>Inr\<close> of the decoded body.
\<close>

datatype event =
  BuyOrderCall string real
  | SymbolFiltersCall string
  | LimitSellOrderCall string real real
  | Sleep nat

record exchange =
  postBuy :: "event list \<Rightarrow> string \<Rightarrow> real \<Rightarrow> string + OrderResponse"
  getExchangeInfo :: "event list \<Rightarrow> string \<Rightarrow> string + SymbolFilters"
  postLimitSell :: "event list \<Rightarrow> string \<Rightarrow> real \<Rightarrow> real \<Rightarrow> string + OrderResponse"

section \<open>strconv.ParseFloat on decimal literals\<close>

text \<open>
  The library function is modelled on the decimal grammar
  \<open>[+-] digits [. digits] [(e|E) [+-] digits]\<close> with at least one mantissa digit, the
  value being the exact decimal. \<open>None\<close> is the syntax error, for which Go returns
  the value 0 beside the error. Outside the model, and rejected by it: hexadecimal
  literals, digit separators and the spellings of infinity and NaN, which Go accepts
  and which have no real value here. Not modelled either: rounding to the nearest
  \<open>float64\<close>, and the range error Go reports for a decimal too large for it.
\<close>

definition digitVal :: "char \<Rightarrow> nat option" where
  "digitVal c = map_of (zip ''0123456789'' [0, 1, 2, 3, 4, 5, 6, 7, 8, 9]) c"

fun readDigits :: "string \<Rightarrow> nat list \<times> string" where
  "readDigits [] = ([], [])"
| "readDigits (c # cs) =
     (case digitVal c of
        None \<Rightarrow> ([], c # cs)
      | Some d \<Rightarrow> (case readDigits cs of (ds, rest) \<Rightarrow> (d # ds, rest)))"

definition decimalValue :: "nat list \<Rightarrow> nat" where
  "decimalValue ds = foldl (\<lambda>a d. 10 * a + d) 0 ds"

fun readSign :: "string \<Rightarrow> bool \<times> string" where
  "readSign [] = (False, [])"
| "readSign (c # cs) =
     (if c = CHR ''+'' then (False, cs)
      else if c = CHR ''-'' then (True, cs)
      else (False, c # cs))"

fun readExponent :: "string \<Rightarrow> int option" where
  "readExponent [] = Some 0"
| "readExponent (c # cs) =
     (if c = CHR ''e'' \<or> c = CHR ''E'' then
        (case readSign cs of (neg, s1) \<Rightarrow>
           (case readDigits s1 of (ds, rest) \<Rightarrow>
              if ds = [] \<or> rest \<noteq> [] then None
              else Some (if neg then - int (decimalValue ds) else int (decimalValue ds))))
      else None)"

fun readFraction :: "string \<Rightarrow> nat list \<times> string" where
  "readFraction [] = ([], [])"
| "readFraction (c # cs) = (if c = CHR ''.'' then readDigits cs else ([], c # cs))"

definition scale10 :: "real \<Rightarrow> int \<Rightarrow> real" where
  "scale10 m e = (if 0 \<le> e then m * 10 ^ nat e else m / 10 ^ nat (- e))"

definition ParseFloat :: "string \<Rightarrow> real option" where
  "ParseFloat s =
     (case readSign s of (neg, s1) \<Rightarrow>
      case readDigits s1 of (ip, s2) \<Rightarrow>
      case readFraction s2 of (fp, s3) \<Rightarrow>
        if ip = [] \<and> fp = [] then None
        else (case readExponent s3 of
                None \<Rightarrow> None
              | Some e \<Rightarrow>
                  let mant = real (decimalValue (ip @ fp)) / 10 ^ length fp
                  in Some (scale10 (if neg then - mant else mant) e)))"

text \<open>\<open>v, _ := strconv.ParseFloat(s, 64)\<close>: the error is dropped and \<open>v\<close> is 0 on it.\<close>

definition parseOrZero :: "string \<Rightarrow> real" where
  "parseOrZero s = (case ParseFloat s of None \<Rightarrow> 0 | Some v \<Rightarrow> v)"

section \<open>Sell-price normalizer (trading-bot.go, roundToTickSize)\<close>

text \<open>
  \<open>int64(x)\<close> on a float truncates toward zero. Go leaves the result to the
  implementation when the truncated value does not fit in 64 bits; it is modelled as on
  amd64, where the conversion then gives the least \<open>int64\<close>. In
  \<open>roundToTickSize\<close> the quotient, the sum and the product are exact here; in
  \<open>float64\<close> each is rounded, so the program can land on a neighbouring tick.
\<close>

definition truncInt64 :: "real \<Rightarrow> int" where
  "truncInt64 x =
     (let t = (if 0 \<le> x then \<lfloor>x\<rfloor> else \<lceil>x\<rceil>)
      in if - (2 ^ 63) \<le> t \<and> t < 2 ^ 63 then t else - (2 ^ 63))"

definition roundToTickSize :: "real \<Rightarrow> string \<Rightarrow> real" where
  "roundToTickSize price tickSize =
     (case ParseFloat tickSize of
        None \<Rightarrow> price
      | Some tick \<Rightarrow>
          if tick \<le> 0 then price
          else of_int (truncInt64 (price / tick + 0.5)) * tick)"

section \<open>Signal classifier (trading-bot.go, loop body of analyzeTradingOpportunities)\<close>

datatype signal = SKIP | WATCH | BUY | HOLD | RISKY

text \<open>
  The labels the loop body reports for a coin whose 24h change is \<open>x\<close>, in the order
  it prints them. \<open>BUY\<close> is the branch that calls \<open>executeBuy\<close>. The safety check
  ends the iteration (\<open>continue\<close>); the watch check is an \<open>if\<close> of its own and falls
  through to the chain that follows.
\<close>

definition classify :: "real \<Rightarrow> signal list" where
  "classify x =
     (if x \<le> - 11.0 then [SKIP]
      else
        (if x \<le> - 4.5 \<and> x > - 5.0 then [WATCH] else []) @
        (if x \<le> - 5.0 \<and> x > - 10.0 then [BUY]
         else if x > - 5.0 then [HOLD]
         else if x \<le> - 10.0 \<and> x > - 11.0 then [RISKY]
         else []))"

section \<open>Constructor (trading-bot.go, NewTradingBot)\<close>

text \<open>The two keys are the values of the environment variables the constructor reads.\<close>

definition NewTradingBot :: "string \<Rightarrow> string \<Rightarrow> real \<Rightarrow> string + TradingBot" where
  "NewTradingBot apiKey secretKey budget =
     (if apiKey = [] \<or> secretKey = [] then Inl ''BINANCE API KEYS REQUIRED!''
      else Inr \<lparr>TotalBudget = budget, AvailableBudget = budget, InvestmentAmount = 7.0,
                Positions = [], WatchList = [], NextPositionID = 1,
                BinanceConfig = \<lparr>APIKey = apiKey, SecretKey = secretKey,
                                  BaseURL = ''https://api.binance.com''\<rparr>\<rparr>)"

section \<open>Gateway calls (trading-bot.go)\<close>

text \<open>
  Each call returns its answer and the trace extended by the call. The two order calls
  answer with an error, without asking the exchange, when a credential is empty. The
  receiver \<open>bot\<close> of the Go methods is written \<open>tbot\<close>, since \<open>bot\<close> is a
  constant of HOL.
\<close>

definition executeBuyOrder ::
  "exchange \<Rightarrow> TradingBot \<Rightarrow> string \<Rightarrow> real \<Rightarrow> event list \<Rightarrow> (string + OrderResponse) \<times> event list" where
  "executeBuyOrder ex tbot symbol quoteOrderQty tr =
     (if APIKey (BinanceConfig tbot) = [] \<or> SecretKey (BinanceConfig tbot) = []
      then Inl ''Binance API credentials not configured''
      else postBuy ex tr symbol quoteOrderQty,
      tr @ [BuyOrderCall symbol quoteOrderQty])"

definition executeLimitSellOrder ::
  "exchange \<Rightarrow> TradingBot \<Rightarrow> string \<Rightarrow> real \<Rightarrow> real \<Rightarrow> event list \<Rightarrow> (string + OrderResponse) \<times> event list" where
  "executeLimitSellOrder ex tbot symbol quantity price tr =
     (if APIKey (BinanceConfig tbot) = [] \<or> SecretKey (BinanceConfig tbot) = []
      then Inl ''Binance API credentials not configured''
      else postLimitSell ex tr symbol quantity price,
      tr @ [LimitSellOrderCall symbol quantity price])"

definition getSymbolFilters ::
  "exchange \<Rightarrow> string \<Rightarrow> event list \<Rightarrow> (string + SymbolFilters) \<times> event list" where
  "getSymbolFilters ex symbol tr = (getExchangeInfo ex tr symbol, tr @ [SymbolFiltersCall symbol])"

section \<open>Position manager (trading-bot.go, executeBuy)\<close>

definition maxRetries :: nat where
  "maxRetries = 3"

text \<open>
  The retry loop \<open>for retry := 1; retry <= maxRetries; retry++\<close>. The loop variables
  \<open>sellOrderResp\<close> and \<open>sellErr\<close> are carried as \<open>latest\<close>: \<open>None\<close> while both are
  nil, then the answer of the latest attempt. A success leaves the loop; a failure sleeps
  2 seconds unless it was the last attempt.
\<close>

function sellRetryLoop ::
  "exchange \<Rightarrow> TradingBot \<Rightarrow> string \<Rightarrow> real \<Rightarrow> real \<Rightarrow> nat \<Rightarrow>
     (string + OrderResponse) option \<times> event list \<Rightarrow> (string + OrderResponse) option \<times> event list" where
  "sellRetryLoop ex tbot symbol qty price retry (latest, tr) =
     (if retry \<le> maxRetries then
        (case executeLimitSellOrder ex tbot symbol qty price tr of
           (Inr resp, tr1) \<Rightarrow> (Some (Inr resp), tr1)
         | (Inl sellErr, tr1) \<Rightarrow>
             sellRetryLoop ex tbot symbol qty price (retry + 1)
               (Some (Inl sellErr), if retry < maxRetries then tr1 @ [Sleep 2] else tr1))
      else (latest, tr))"
  by pat_completeness auto
termination
  by (relation "measure (\<lambda>(ex, tbot, symbol, qty, price, retry, st). Suc maxRetries - retry)") auto

declare sellRetryLoop.simps [simp del]

text \<open>
  The fill loop: \<open>totalValue\<close> and \<open>totalQty\<close> over the fills, an unparsable price
  or quantity counting as 0.
\<close>

fun fillTotals :: "Fill list \<Rightarrow> real \<times> real \<Rightarrow> real \<times> real" where
  "fillTotals [] acc = acc"
| "fillTotals (f # fs) (totalValue, totalQty) =
     fillTotals fs (totalValue + parseOrZero (Price f) * parseOrZero (Qty f),
                    totalQty + parseOrZero (Qty f))"

text \<open>\<open>avgPrice\<close> as it stands after the fallback to the snapshot's last price.\<close>

definition avgFillPrice :: "OrderResponse \<Rightarrow> OptimizedTicker \<Rightarrow> real" where
  "avgFillPrice orderResp coin =
     (let avgPrice =
        (if length (Fills orderResp) > 0 then
           (case fillTotals (Fills orderResp) (0, 0) of (totalValue, totalQty) \<Rightarrow>
              if totalQty > 0 then totalValue / totalQty else 0)
         else 0)
      in if avgPrice = 0 then LastPrice coin else avgPrice)"

text \<open>The position literal built right after the buy, before any sell order.\<close>

definition newPosition ::
  "TradingBot \<Rightarrow> OptimizedTicker \<Rightarrow> real \<Rightarrow> OrderResponse \<Rightarrow> TradingPosition" where
  "newPosition tbot coin dropPercentage orderResp =
     (let actualQty = parseOrZero (ExecutedQty orderResp);
          avgPrice = avgFillPrice orderResp coin
      in \<lparr>ID = NextPositionID tbot,
          Symbol = OptimizedTicker.Symbol coin,
          BuyPrice = avgPrice,
          Quantity = actualQty,
          InvestedAmount = InvestmentAmount tbot,
          TargetSellPrice = avgPrice * 1.05,
          DropPercentage = dropPercentage,
          CurrentValue = avgPrice * actualQty,
          SellOrderID = 0,
          HasActiveSellOrder = False\<rparr>)"

text \<open>
  The part of \<open>executeBuy\<close> from the settlement sleep to the end of the sell
  placement: it returns the position, with the sell order attached when one was
  accepted. \<open>None\<close> is the nil dereference of \<open>sellOrderResp.OrderID\<close> that Go would
  raise had the loop run no attempt.
\<close>

definition placeSellOrder ::
  "exchange \<Rightarrow> TradingBot \<Rightarrow> OptimizedTicker \<Rightarrow> TradingPosition \<Rightarrow> event list \<Rightarrow>
     (TradingPosition \<times> event list) option" where
  "placeSellOrder ex tbot coin position tr =
     (case getSymbolFilters ex (OptimizedTicker.Symbol coin) (tr @ [Sleep 3]) of
        (Inl filterErr, tr1) \<Rightarrow> Some (position, tr1)
      | (Inr filters, tr1) \<Rightarrow>
          (let roundedSellPrice = roundToTickSize (TargetSellPrice position) (TickSize filters)
           in case sellRetryLoop ex tbot (OptimizedTicker.Symbol coin) (Quantity position)
                     roundedSellPrice 1 (None, tr1) of
                (Some (Inl sellErr), tr2) \<Rightarrow> Some (position, tr2)
              | (Some (Inr sellOrderResp), tr2) \<Rightarrow>
                  Some (position\<lparr>SellOrderID := OrderID sellOrderResp,
                                 HasActiveSellOrder := True,
                                 TargetSellPrice := roundedSellPrice\<rparr>, tr2)
              | (None, tr2) \<Rightarrow> None))"

definition executeBuy ::
  "exchange \<Rightarrow> OptimizedTicker \<Rightarrow> real \<Rightarrow> TradingBot \<times> event list \<Rightarrow> (TradingBot \<times> event list) option" where
  "executeBuy ex coin dropPercentage st =
     (case st of (tbot, tr) \<Rightarrow>
        if AvailableBudget tbot < InvestmentAmount tbot then Some (tbot, tr)
        else
          (case executeBuyOrder ex tbot (OptimizedTicker.Symbol coin) (InvestmentAmount tbot) tr of
             (Inl err, tr1) \<Rightarrow> Some (tbot, tr1)
           | (Inr orderResp, tr1) \<Rightarrow>
               (case placeSellOrder ex tbot coin (newPosition tbot coin dropPercentage orderResp) tr1 of
                  None \<Rightarrow> None
                | Some (position, tr2) \<Rightarrow>
                    Some (tbot\<lparr>Positions := Positions tbot @ [position],
                              AvailableBudget := AvailableBudget tbot - InvestmentAmount tbot,
                              NextPositionID := NextPositionID tbot + 1\<rparr>, tr2))))"

text \<open>
  A sequence of \<open>executeBuy\<close> calls, one after the other on the same bot, and the
  number of them that were accepted: the guard passed and the market buy succeeded.
\<close>

definition buyAccepted :: "exchange \<Rightarrow> OptimizedTicker \<Rightarrow> TradingBot \<times> event list \<Rightarrow> bool" where
  "buyAccepted ex coin st =
     (case st of (tbot, tr) \<Rightarrow>
        \<not> AvailableBudget tbot < InvestmentAmount tbot \<and>
        (case executeBuyOrder ex tbot (OptimizedTicker.Symbol coin) (InvestmentAmount tbot) tr of
           (Inl err, tr1) \<Rightarrow> False
         | (Inr orderResp, tr1) \<Rightarrow> True))"

fun executeBuys ::
  "exchange \<Rightarrow> (OptimizedTicker \<times> real) list \<Rightarrow> TradingBot \<times> event list \<Rightarrow> (TradingBot \<times> event list) option" where
  "executeBuys ex [] st = Some st"
| "executeBuys ex ((coin, dropPercentage) # calls) st =
     (case executeBuy ex coin dropPercentage st of
        None \<Rightarrow> None
      | Some st' \<Rightarrow> executeBuys ex calls st')"

fun acceptedBuys ::
  "exchange \<Rightarrow> (OptimizedTicker \<times> real) list \<Rightarrow> TradingBot \<times> event list \<Rightarrow> nat" where
  "acceptedBuys ex [] st = 0"
| "acceptedBuys ex ((coin, dropPercentage) # calls) st =
     (case executeBuy ex coin dropPercentage st of
        None \<Rightarrow> 0
      | Some st' \<Rightarrow> (if buyAccepted ex coin st then 1 else 0) + acceptedBuys ex calls st')"

text \<open>The limit-sell attempts among the events of a trace.\<close>

fun isLimitSell :: "event \<Rightarrow> bool" where
  "isLimitSell (LimitSellOrderCall s q p) = True"
| "isLimitSell e = False"

section \<open>Example inputs\<close>

text \<open>
  A bot as \<open>NewTradingBot\<close> builds it with both keys set, the coin of the spec's
  scenario A, and an exchange that gives the same answer to every buy and every rule
  lookup and answers a limit sell by the number of limit sells attempted before it.
\<close>

definition demoBot :: "real \<Rightarrow> TradingBot" where
  "demoBot budget =
     \<lparr>TotalBudget = budget, AvailableBudget = budget, InvestmentAmount = 7.0,
      Positions = [], WatchList = [], NextPositionID = 1,
      BinanceConfig = \<lparr>APIKey = ''key'', SecretKey = ''secret'', BaseURL = ''https://api.binance.com''\<rparr>\<rparr>"

definition coinABC :: OptimizedTicker where
  "coinABC = \<lparr>OptimizedTicker.Symbol = ''ABCUSDT'', LastPrice = 10.0, PriceChangePercent = - 7.0, PercentChange24h = 0\<rparr>"

definition scriptedExchange ::
  "(string + OrderResponse) \<Rightarrow> (string + SymbolFilters) \<Rightarrow> (nat \<Rightarrow> string + OrderResponse) \<Rightarrow> exchange" where
  "scriptedExchange buyAnswer rulesAnswer sellAnswer =
     \<lparr>postBuy = (\<lambda>tr symbol q. buyAnswer),
      getExchangeInfo = (\<lambda>tr symbol. rulesAnswer),
      postLimitSell = (\<lambda>tr symbol q p. sellAnswer (length (filter isLimitSell tr)))\<rparr>"

definition filledBuy :: OrderResponse where
  "filledBuy = \<lparr>OrderID = 42, ExecutedQty = ''0.7'', Fills = [\<lparr>Price = ''10.0'', Qty = ''0.7''\<rparr>]\<rparr>"

definition garbledBuy :: OrderResponse where
  "garbledBuy = \<lparr>OrderID = 43, ExecutedQty = ''abc'', Fills = []\<rparr>"

definition mixedBuy :: OrderResponse where
  "mixedBuy = \<lparr>OrderID = 44, ExecutedQty = ''0.7'',
                Fills = [\<lparr>Price = ''abc'', Qty = ''0.35''\<rparr>, \<lparr>Price = ''10.0'', Qty = ''0.35''\<rparr>]\<rparr>"

definition rulesABC :: SymbolFilters where
  "rulesABC = \<lparr>StepSize = ''0.1'', TickSize = ''0.1''\<rparr>"

definition sellAccepted :: "64 word \<Rightarrow> OrderResponse" where
  "sellAccepted oid = \<lparr>OrderID = oid, ExecutedQty = ''0'', Fills = []\<rparr>"

text \<open>Scripts for the limit sell: the answer to the attempt that follows \<open>n\<close> earlier ones.\<close>

definition alwaysSell :: "64 word \<Rightarrow> nat \<Rightarrow> string + OrderResponse" where
  "alwaysSell oid n = Inr (sellAccepted oid)"

definition sellAfter :: "nat \<Rightarrow> nat \<Rightarrow> string + OrderResponse" where
  "sellAfter k n = (if n < k then Inl ''busy'' else Inr (sellAccepted 77))"

definition neverSell :: "nat \<Rightarrow> string + OrderResponse" where
  "neverSell n = (if n < 2 then Inl ''early'' else Inl ''last'')"

section \<open>Evaluation rules\<close>

lemmas parse_simps = ParseFloat_def digitVal_def decimalValue_def scale10_def parseOrZero_def

lemmas gateway_simps = executeBuyOrder_def executeLimitSellOrder_def getSymbolFilters_def
  scriptedExchange_def alwaysSell_def sellAfter_def neverSell_def

lemmas buy_simps = executeBuy_def placeSellOrder_def newPosition_def avgFillPrice_def
  roundToTickSize_def truncInt64_def maxRetries_def sellRetryLoop.simps demoBot_def coinABC_def
  filledBuy_def garbledBuy_def mixedBuy_def rulesABC_def sellAccepted_def Let_def

lemmas eval_simps = parse_simps gateway_simps buy_simps

section \<open>The retry loop\<close>

lemma sellRetryLoop_some:
  "latest \<noteq> None \<or> retry \<le> maxRetries \<Longrightarrow>
   fst (sellRetryLoop ex b symbol q p retry (latest, tr)) \<noteq> None"
proof (induction ex b symbol q p retry "(latest, tr)" arbitrary: latest tr rule: sellRetryLoop.induct)
  case (1 ex b symbol q p retry latest tr)
  show ?case
  proof (cases "retry \<le> maxRetries")
    case False
    with "1.prems" show ?thesis by (simp add: sellRetryLoop.simps [of _ _ _ _ _ retry])
  next
    case True
    obtain r tr1 where c: "executeLimitSellOrder ex b symbol q p tr = (r, tr1)" by force
    show ?thesis
    proof (cases r)
      case (Inr resp)
      with True c show ?thesis by (simp add: sellRetryLoop.simps [of _ _ _ _ _ retry])
    next
      case (Inl e)
      with True c "1.hyps" [of r tr1 e]
      show ?thesis by (simp add: sellRetryLoop.simps [of _ _ _ _ _ retry])
    qed
  qed
qed

lemma sellRetryLoop_all_fail:
  "(\<And>t. isl (fst (executeLimitSellOrder ex b symbol q p t))) \<Longrightarrow> retry \<le> maxRetries \<Longrightarrow>
   \<exists>e tr'. sellRetryLoop ex b symbol q p retry (latest, tr) = (Some (Inl e), tr')"
proof (induction ex b symbol q p retry "(latest, tr)" arbitrary: latest tr rule: sellRetryLoop.induct)
  case (1 ex b symbol q p retry latest tr)
  obtain r tr1 where c: "executeLimitSellOrder ex b symbol q p tr = (r, tr1)" by force
  with "1.prems"(1) [of tr] obtain e where r: "r = Inl e" by (cases r) auto
  show ?case
  proof (cases "retry + 1 \<le> maxRetries")
    case True
    with "1.hyps" [of r tr1 e] "1.prems" c r show ?thesis
      by (simp add: sellRetryLoop.simps [of _ _ _ _ _ retry])
  next
    case False
    with "1.prems"(2) c r show ?thesis
      by (simp add: sellRetryLoop.simps [of _ _ _ _ _ retry] sellRetryLoop.simps [of _ _ _ _ _ "Suc retry"])
  qed
qed

lemma sellRetryLoop_success:
  "sellRetryLoop ex b symbol q p retry (latest, tr) = (Some (Inr resp), tr') \<Longrightarrow>
   latest = Some (Inr resp) \<or> (\<exists>t. fst (executeLimitSellOrder ex b symbol q p t) = Inr resp)"
proof (induction ex b symbol q p retry "(latest, tr)" arbitrary: latest tr rule: sellRetryLoop.induct)
  case (1 ex b symbol q p retry latest tr)
  show ?case
  proof (cases "retry \<le> maxRetries")
    case False
    with "1.prems" show ?thesis by (simp add: sellRetryLoop.simps [of _ _ _ _ _ retry])
  next
    case True
    obtain r tr1 where c: "executeLimitSellOrder ex b symbol q p tr = (r, tr1)" by force
    show ?thesis
    proof (cases r)
      case (Inr resp')
      with True c "1.prems" have "resp' = resp"
        by (simp add: sellRetryLoop.simps [of _ _ _ _ _ retry])
      with c Inr have "fst (executeLimitSellOrder ex b symbol q p tr) = Inr resp" by simp
      then show ?thesis by blast
    next
      case (Inl e)
      with True c "1.prems" "1.hyps" [of r tr1 e]
      show ?thesis by (simp add: sellRetryLoop.simps [of _ _ _ _ _ retry])
    qed
  qed
qed

text \<open>The loop unfolded, one attempt at a time, with \<open>maxRetries\<close> at its value 3.\<close>

lemma sellRetryLoop_unfold:
  "sellRetryLoop ex b symbol q p retry (latest, tr) =
     (if retry \<le> 3 then
        (case fst (executeLimitSellOrder ex b symbol q p tr) of
           Inr resp \<Rightarrow> (Some (Inr resp), tr @ [LimitSellOrderCall symbol q p])
         | Inl e \<Rightarrow> sellRetryLoop ex b symbol q p (retry + 1)
              (Some (Inl e),
               if retry < 3 then tr @ [LimitSellOrderCall symbol q p, Sleep 2]
               else tr @ [LimitSellOrderCall symbol q p]))
      else (latest, tr))"
  by (subst sellRetryLoop.simps)
     (simp add: executeLimitSellOrder_def maxRetries_def split: sum.splits)

lemma sellRetryLoop_past_end:
  "retry = 4 \<Longrightarrow> sellRetryLoop ex b symbol q p retry (latest, tr) = (latest, tr)"
  by (subst sellRetryLoop_unfold) simp

lemma sellRetryLoop_third:
  "retry = 3 \<Longrightarrow> sellRetryLoop ex b symbol q p retry (latest, tr) =
     (Some (fst (executeLimitSellOrder ex b symbol q p tr)), tr @ [LimitSellOrderCall symbol q p])"
  by (subst sellRetryLoop_unfold) (simp add: sellRetryLoop_past_end split: sum.splits)

lemma sellRetryLoop_second:
  "retry = 2 \<Longrightarrow> sellRetryLoop ex b symbol q p retry (latest, tr) =
     (case fst (executeLimitSellOrder ex b symbol q p tr) of
        Inr resp \<Rightarrow> (Some (Inr resp), tr @ [LimitSellOrderCall symbol q p])
      | Inl e \<Rightarrow>
          (Some (fst (executeLimitSellOrder ex b symbol q p (tr @ [LimitSellOrderCall symbol q p, Sleep 2]))),
           tr @ [LimitSellOrderCall symbol q p, Sleep 2, LimitSellOrderCall symbol q p]))"
  by (subst sellRetryLoop_unfold) (simp add: sellRetryLoop_third split: sum.splits)

lemma sellRetryLoop_first:
  "retry = 1 \<Longrightarrow> sellRetryLoop ex b symbol q p retry (latest, tr) =
     (case fst (executeLimitSellOrder ex b symbol q p tr) of
        Inr resp \<Rightarrow> (Some (Inr resp), tr @ [LimitSellOrderCall symbol q p])
      | Inl e \<Rightarrow>
          (case fst (executeLimitSellOrder ex b symbol q p (tr @ [LimitSellOrderCall symbol q p, Sleep 2])) of
             Inr resp \<Rightarrow>
               (Some (Inr resp), tr @ [LimitSellOrderCall symbol q p, Sleep 2, LimitSellOrderCall symbol q p])
           | Inl e2 \<Rightarrow>
               (Some (fst (executeLimitSellOrder ex b symbol q p
                        (tr @ [LimitSellOrderCall symbol q p, Sleep 2, LimitSellOrderCall symbol q p, Sleep 2]))),
                tr @ [LimitSellOrderCall symbol q p, Sleep 2, LimitSellOrderCall symbol q p, Sleep 2,
                      LimitSellOrderCall symbol q p])))"
  by (subst sellRetryLoop_unfold) (simp add: sellRetryLoop_second split: sum.splits)

section \<open>The sell placement\<close>

lemma placeSellOrder_cases:
  obtains (manual) tr' where "placeSellOrder ex b coin position tr = Some (position, tr')"
  | (placed) filters and resp :: OrderResponse and tr' and t where
      "getExchangeInfo ex (tr @ [Sleep 3]) (OptimizedTicker.Symbol coin) = Inr filters"
      "fst (executeLimitSellOrder ex b (OptimizedTicker.Symbol coin) (Quantity position)
             (roundToTickSize (TargetSellPrice position) (TickSize filters)) t) = Inr resp"
      "placeSellOrder ex b coin position tr =
         Some (position\<lparr>SellOrderID := OrderID resp, HasActiveSellOrder := True,
                 TargetSellPrice := roundToTickSize (TargetSellPrice position) (TickSize filters)\<rparr>, tr')"
proof -
  obtain fr tr1 where f: "getSymbolFilters ex (OptimizedTicker.Symbol coin) (tr @ [Sleep 3]) = (fr, tr1)"
    by force
  show ?thesis
  proof (cases fr)
    case (Inl e)
    with f have "placeSellOrder ex b coin position tr = Some (position, tr1)"
      by (simp add: placeSellOrder_def)
    then show ?thesis by (rule manual)
  next
    case (Inr filters)
    let ?price = "roundToTickSize (TargetSellPrice position) (TickSize filters)"
    obtain l tr2 where lp: "sellRetryLoop ex b (OptimizedTicker.Symbol coin) (Quantity position)
        ?price 1 (None, tr1) = (l, tr2)"
      by force
    have "fst (sellRetryLoop ex b (OptimizedTicker.Symbol coin) (Quantity position)
        ?price 1 (None, tr1)) \<noteq> None"
      by (rule sellRetryLoop_some) (simp add: maxRetries_def)
    with lp have "l \<noteq> None" by simp
    then obtain a where l: "l = Some a" by auto
    show ?thesis
    proof (cases a)
      case (Inl e)
      with f Inr lp l have "placeSellOrder ex b coin position tr = Some (position, tr2)"
        by (simp add: placeSellOrder_def)
      then show ?thesis by (rule manual)
    next
      case r: (Inr resp)
      have 1: "getExchangeInfo ex (tr @ [Sleep 3]) (OptimizedTicker.Symbol coin) = Inr filters"
        using f Inr by (simp add: getSymbolFilters_def)
      from sellRetryLoop_success
        [of ex b "OptimizedTicker.Symbol coin" "Quantity position" ?price 1 None tr1 resp tr2] lp l r
      obtain t where 2: "fst (executeLimitSellOrder ex b (OptimizedTicker.Symbol coin) (Quantity position)
             ?price t) = Inr resp"
        by auto
      from r f Inr lp l have 3: "placeSellOrder ex b coin position tr =
          Some (position\<lparr>SellOrderID := OrderID resp, HasActiveSellOrder := True,
                  TargetSellPrice := ?price\<rparr>, tr2)"
        by (simp add: placeSellOrder_def)
      from 1 2 3 show ?thesis by (rule placed)
    qed
  qed
qed

lemma placeSellOrder_lookup_fail:
  "isl (fst (getSymbolFilters ex (OptimizedTicker.Symbol coin) (tr @ [Sleep 3]))) \<Longrightarrow>
   \<exists>tr'. placeSellOrder ex b coin position tr = Some (position, tr')"
  by (cases "getSymbolFilters ex (OptimizedTicker.Symbol coin) (tr @ [Sleep 3])")
     (auto simp: placeSellOrder_def isl_def)

lemma placeSellOrder_sell_fail:
  assumes "\<And>t q p. isl (fst (executeLimitSellOrder ex b (OptimizedTicker.Symbol coin) q p t))"
  shows "\<exists>tr'. placeSellOrder ex b coin position tr = Some (position, tr')"
proof -
  obtain fr tr1 where f: "getSymbolFilters ex (OptimizedTicker.Symbol coin) (tr @ [Sleep 3]) = (fr, tr1)"
    by force
  show ?thesis
  proof (cases fr)
    case (Inl e)
    with f show ?thesis by (simp add: placeSellOrder_def)
  next
    case (Inr filters)
    from sellRetryLoop_all_fail [of ex b "OptimizedTicker.Symbol coin" "Quantity position"
        "roundToTickSize (TargetSellPrice position) (TickSize filters)" 1 None tr1] assms
    obtain e tr2 where "sellRetryLoop ex b (OptimizedTicker.Symbol coin) (Quantity position)
        (roundToTickSize (TargetSellPrice position) (TickSize filters)) 1 (None, tr1) = (Some (Inl e), tr2)"
      by (auto simp: maxRetries_def)
    with f Inr show ?thesis by (simp add: placeSellOrder_def)
  qed
qed

section \<open>One call of executeBuy\<close>

lemma newPosition_fields:
  "ID (newPosition b coin d r) = NextPositionID b"
  "TradingPosition.Symbol (newPosition b coin d r) = OptimizedTicker.Symbol coin"
  "BuyPrice (newPosition b coin d r) = avgFillPrice r coin"
  "Quantity (newPosition b coin d r) = parseOrZero (ExecutedQty r)"
  "InvestedAmount (newPosition b coin d r) = InvestmentAmount b"
  "TargetSellPrice (newPosition b coin d r) = avgFillPrice r coin * 1.05"
  "SellOrderID (newPosition b coin d r) = 0"
  "HasActiveSellOrder (newPosition b coin d r) = False"
  by (simp_all add: newPosition_def Let_def)

lemma buyAccepted_iff:
  "buyAccepted ex coin (b, tr) \<longleftrightarrow>
     \<not> AvailableBudget b < InvestmentAmount b \<and>
     (\<exists>orderResp. executeBuyOrder ex b (OptimizedTicker.Symbol coin) (InvestmentAmount b) tr =
         (Inr orderResp, tr @ [BuyOrderCall (OptimizedTicker.Symbol coin) (InvestmentAmount b)]))"
  by (auto simp: buyAccepted_def executeBuyOrder_def split: sum.splits)

lemma executeBuy_not_accepted:
  "\<not> buyAccepted ex coin (b, tr) \<Longrightarrow> \<exists>tr'. executeBuy ex coin d (b, tr) = Some (b, tr')"
  by (auto simp: buyAccepted_def executeBuy_def split: prod.splits sum.splits)

lemma executeBuy_accepted:
  assumes "\<not> AvailableBudget b < InvestmentAmount b"
    and "executeBuyOrder ex b (OptimizedTicker.Symbol coin) (InvestmentAmount b) tr = (Inr orderResp, tr1)"
  shows "\<exists>pos tr'.
           placeSellOrder ex b coin (newPosition b coin d orderResp) tr1 = Some (pos, tr') \<and>
           executeBuy ex coin d (b, tr) =
             Some (b\<lparr>Positions := Positions b @ [pos],
                     AvailableBudget := AvailableBudget b - InvestmentAmount b,
                     NextPositionID := NextPositionID b + 1\<rparr>, tr')"
proof -
  obtain pos tr' where "placeSellOrder ex b coin (newPosition b coin d orderResp) tr1 = Some (pos, tr')"
    by (rule placeSellOrder_cases [of ex b coin "newPosition b coin d orderResp" tr1]) blast+
  with assms show ?thesis by (simp add: executeBuy_def)
qed

lemma executeBuy_budget:
  "\<exists>b' tr'. executeBuy ex coin d (b, tr) = Some (b', tr') \<and>
      TotalBudget b' = TotalBudget b \<and> InvestmentAmount b' = InvestmentAmount b \<and>
      AvailableBudget b' =
        AvailableBudget b - (if buyAccepted ex coin (b, tr) then InvestmentAmount b else 0) \<and>
      (buyAccepted ex coin (b, tr) \<longrightarrow> InvestmentAmount b \<le> AvailableBudget b)"
proof (cases "buyAccepted ex coin (b, tr)")
  case False
  with executeBuy_not_accepted [of ex coin b tr d] show ?thesis by auto
next
  case True
  then obtain orderResp where
    g: "\<not> AvailableBudget b < InvestmentAmount b" and
    o: "executeBuyOrder ex b (OptimizedTicker.Symbol coin) (InvestmentAmount b) tr =
          (Inr orderResp, tr @ [BuyOrderCall (OptimizedTicker.Symbol coin) (InvestmentAmount b)])"
    by (auto simp: buyAccepted_iff)
  from executeBuy_accepted [OF g o, of d] obtain pos tr' where
    "executeBuy ex coin d (b, tr) =
          Some (b\<lparr>Positions := Positions b @ [pos],
                  AvailableBudget := AvailableBudget b - InvestmentAmount b,
                  NextPositionID := NextPositionID b + 1\<rparr>, tr')"
    by blast
  with True g show ?thesis by simp
qed

lemma executeBuys_budget:
  "\<exists>b' tr'. executeBuys ex calls (b, tr) = Some (b', tr') \<and>
      TotalBudget b' = TotalBudget b \<and> InvestmentAmount b' = InvestmentAmount b \<and>
      AvailableBudget b' =
        AvailableBudget b - InvestmentAmount b * real (acceptedBuys ex calls (b, tr)) \<and>
      (0 \<le> AvailableBudget b \<longrightarrow> 0 \<le> AvailableBudget b')"
proof (induction calls arbitrary: b tr)
  case Nil
  then show ?case by simp
next
  case (Cons c calls)
  obtain coin d where c: "c = (coin, d)" by (cases c)
  from executeBuy_budget [of ex coin d b tr] obtain b1 tr1 where
    s: "executeBuy ex coin d (b, tr) = Some (b1, tr1)" and
    t: "TotalBudget b1 = TotalBudget b" and i: "InvestmentAmount b1 = InvestmentAmount b" and
    a: "AvailableBudget b1 =
        AvailableBudget b - (if buyAccepted ex coin (b, tr) then InvestmentAmount b else 0)" and
    g: "buyAccepted ex coin (b, tr) \<longrightarrow> InvestmentAmount b \<le> AvailableBudget b"
    by blast
  from Cons.IH [of b1 tr1] obtain b' tr' where
    r: "executeBuys ex calls (b1, tr1) = Some (b', tr')"
       "TotalBudget b' = TotalBudget b1" "InvestmentAmount b' = InvestmentAmount b1"
       "AvailableBudget b' =
          AvailableBudget b1 - InvestmentAmount b1 * real (acceptedBuys ex calls (b1, tr1))"
       "0 \<le> AvailableBudget b1 \<longrightarrow> 0 \<le> AvailableBudget b'"
    by blast
  have 1: "0 \<le> AvailableBudget b \<longrightarrow> 0 \<le> AvailableBudget b1"
    using a g by (cases "buyAccepted ex coin (b, tr)") simp_all
  have 2: "AvailableBudget b' =
      AvailableBudget b - InvestmentAmount b * real (acceptedBuys ex (c # calls) (b, tr))"
    using r(4) s c a i by (cases "buyAccepted ex coin (b, tr)") (simp_all add: algebra_simps)
  from r s t i c 1 2 show ?case by simp
qed

lemma fillTotals_sums:
  "fillTotals fs (v, q) =
     (v + (\<Sum>f\<leftarrow>fs. parseOrZero (Price f) * parseOrZero (Qty f)),
      q + (\<Sum>f\<leftarrow>fs. parseOrZero (Qty f)))"
  by (induction fs arbitrary: v q) (simp_all add: algebra_simps)

lemma avgFillPrice_formula:
  "avgFillPrice r coin =
     (let totalValue = (\<Sum>f\<leftarrow>Fills r. parseOrZero (Price f) * parseOrZero (Qty f));
          totalQty = (\<Sum>f\<leftarrow>Fills r. parseOrZero (Qty f));
          avg = (if 0 < totalQty then totalValue / totalQty else 0)
      in if avg = 0 then LastPrice coin else avg)"
  by (cases "Fills r") (simp_all add: avgFillPrice_def fillTotals_sums Let_def)

lemma sum_list_no_price:
  "\<forall>f\<in>set fs. ParseFloat (Price f) = None \<Longrightarrow>
   (\<Sum>f\<leftarrow>fs. parseOrZero (Price f) * parseOrZero (Qty f)) = 0"
  by (induction fs) (simp_all add: parseOrZero_def)

lemma avgFillPrice_fallback:
  assumes "\<forall>f\<in>set (Fills r). ParseFloat (Price f) = None"
  shows "avgFillPrice r coin = LastPrice coin"
  by (simp add: avgFillPrice_formula sum_list_no_price [OF assms] Let_def)

section \<open>Signal classifier\<close>

text \<open>
  C1. The classifier is a function of the 24h change \<open>x\<close> alone. \<open>x \<le> -11\<close> is
  SKIP; \<open>-11 < x \<le> -10\<close> is RISKY, the tie \<open>x = -10\<close> included; \<open>-10 < x \<le> -5\<close> is
  BUY, the tie \<open>x = -5\<close> included; \<open>-5 < x \<le> -4.5\<close> is WATCH, reported together with
  the HOLD line; \<open>x > -4.5\<close> is HOLD.
\<close>

theorem classify_zones:
  "(x \<le> - 11.0 \<longrightarrow> classify x = [SKIP]) \<and>
   (- 11.0 < x \<and> x \<le> - 10.0 \<longrightarrow> classify x = [RISKY]) \<and>
   (- 10.0 < x \<and> x \<le> - 5.0 \<longrightarrow> classify x = [BUY]) \<and>
   (- 5.0 < x \<and> x \<le> - 4.5 \<longrightarrow> classify x = [WATCH, HOLD]) \<and>
   (- 4.5 < x \<longrightarrow> classify x = [HOLD])"
  by (simp add: classify_def)

text \<open>One change from each zone, and the two ties.\<close>

theorem classify_zones_witness:
  "classify (- 12) = [SKIP] \<and> classify (- 10.5) = [RISKY] \<and> classify (- 10) = [RISKY] \<and>
   classify (- 7) = [BUY] \<and> classify (- 5) = [BUY] \<and> classify (- 4.5) = [WATCH, HOLD] \<and>
   classify 3 = [HOLD]"
  using classify_zones [of "- 12"] classify_zones [of "- 10.5"] classify_zones [of "- 10"]
    classify_zones [of "- 7"] classify_zones [of "- 5"] classify_zones [of "- 4.5"]
    classify_zones [of 3]
  by simp

text \<open>A drop of exactly 10 percent is not bought: it is reported as RISKY.\<close>

theorem classify_minus_ten_not_buy:
  "classify (- 10.0) = [RISKY] \<and> BUY \<notin> set (classify (- 10.0))"
  by (simp add: classify_def)

section \<open>Budget\<close>

text \<open>
  C2. For every bot state, every exchange behaviour and every sequence of
  \<open>executeBuy\<close> calls, the sequence returns and the available budget afterwards is
  the available budget before minus the investment unit times the number of accepted
  buys; total budget and investment unit do not change. So a bot that starts with its
  whole budget available, as \<open>NewTradingBot\<close> builds it, has afterwards the total
  budget minus the unit times the accepted buys available; and an available budget that
  is not negative before is not negative after.
\<close>

theorem budget_invariant:
  "\<exists>b' tr'. executeBuys ex calls (b, tr) = Some (b', tr') \<and>
      TotalBudget b' = TotalBudget b \<and> InvestmentAmount b' = InvestmentAmount b \<and>
      AvailableBudget b' =
        AvailableBudget b - InvestmentAmount b * real (acceptedBuys ex calls (b, tr)) \<and>
      (AvailableBudget b = TotalBudget b \<longrightarrow>
         AvailableBudget b' =
           TotalBudget b' - InvestmentAmount b' * real (acceptedBuys ex calls (b, tr))) \<and>
      (0 \<le> AvailableBudget b \<longrightarrow> 0 \<le> AvailableBudget b')"
proof -
  from executeBuys_budget [of ex calls b tr] obtain b' tr' where
    r: "executeBuys ex calls (b, tr) = Some (b', tr')"
       "TotalBudget b' = TotalBudget b" "InvestmentAmount b' = InvestmentAmount b"
       "AvailableBudget b' =
          AvailableBudget b - InvestmentAmount b * real (acceptedBuys ex calls (b, tr))"
       "0 \<le> AvailableBudget b \<longrightarrow> 0 \<le> AvailableBudget b'"
    by blast
  then show ?thesis by simp
qed

text \<open>
  A new bot with 20 USDT and three buy signals: two buys are accepted, the third is
  stopped by the guard, and 6 USDT remain.
\<close>

theorem budget_invariant_witness:
  "NewTradingBot ''key'' ''secret'' 20 = Inr (demoBot 20) \<and>
   AvailableBudget (demoBot 20) = TotalBudget (demoBot 20) \<and>
   0 \<le> AvailableBudget (demoBot 20) \<and>
   acceptedBuys (scriptedExchange (Inr filledBuy) (Inr rulesABC) (alwaysSell 77))
     [(coinABC, - 7), (coinABC, - 7), (coinABC, - 7)] (demoBot 20, []) = 2 \<and>
   (\<exists>b' tr'.
      executeBuys (scriptedExchange (Inr filledBuy) (Inr rulesABC) (alwaysSell 77))
        [(coinABC, - 7), (coinABC, - 7), (coinABC, - 7)] (demoBot 20, []) = Some (b', tr') \<and>
      AvailableBudget b' = TotalBudget b' - InvestmentAmount b' * real 2 \<and>
      AvailableBudget b' = 6 \<and> 0 \<le> AvailableBudget b')"
proof -
  let ?ex = "scriptedExchange (Inr filledBuy) (Inr rulesABC) (alwaysSell 77)"
  let ?calls = "[(coinABC, - 7), (coinABC, - 7), (coinABC, - 7)]"
  have h0: "NewTradingBot ''key'' ''secret'' 20 = Inr (demoBot 20)"
    by (simp add: NewTradingBot_def demoBot_def)
  have h1: "AvailableBudget (demoBot 20) = TotalBudget (demoBot 20)"
    by (simp add: demoBot_def)
  have h2: "0 \<le> AvailableBudget (demoBot 20)" by (simp add: demoBot_def)
  have n: "acceptedBuys ?ex ?calls (demoBot 20, []) = 2"
    by (simp add: buyAccepted_def eval_simps)
  from budget_invariant [of ?ex ?calls "demoBot 20" "[]"] h1 h2 n have
    "\<exists>b' tr'. executeBuys ?ex ?calls (demoBot 20, []) = Some (b', tr') \<and>
       AvailableBudget b' = TotalBudget b' - InvestmentAmount b' * real 2 \<and>
       AvailableBudget b' = 6 \<and> 0 \<le> AvailableBudget b'"
    by (auto simp: demoBot_def)
  with h0 h1 h2 n show ?thesis by (intro conjI)
qed

section \<open>executeBuy\<close>

text \<open>
  C3. When the available budget is below the investment unit, \<open>executeBuy\<close> calls no
  gateway function and does not sleep (the trace is the one it was given) and returns
  the bot as it was: no position, same budget, same id counter.
\<close>

theorem executeBuy_insufficient_budget:
  "AvailableBudget b < InvestmentAmount b \<Longrightarrow> executeBuy ex coin d (b, tr) = Some (b, tr)"
  by (simp add: executeBuy_def)

text \<open>Scenario C of the specification: 5 USDT available, 7 needed.\<close>

theorem executeBuy_insufficient_budget_witness:
  "AvailableBudget (demoBot 5) < InvestmentAmount (demoBot 5) \<and>
   executeBuy (scriptedExchange (Inr filledBuy) (Inr rulesABC) (alwaysSell 77))
     coinABC (- 7) (demoBot 5, []) = Some (demoBot 5, [])"
proof -
  have h: "AvailableBudget (demoBot 5) < InvestmentAmount (demoBot 5)" by (simp add: demoBot_def)
  from executeBuy_insufficient_budget [OF h] h show ?thesis by simp
qed

text \<open>
  C4. When the guard passes and the market buy answers with an error, \<open>executeBuy\<close>
  returns the bot as it was (positions, available budget and id counter included); the
  only effect is the buy call itself.
\<close>

theorem executeBuy_buy_error:
  "\<not> AvailableBudget b < InvestmentAmount b \<Longrightarrow>
   fst (executeBuyOrder ex b (OptimizedTicker.Symbol coin) (InvestmentAmount b) tr) = Inl err \<Longrightarrow>
   executeBuy ex coin d (b, tr) =
     Some (b, tr @ [BuyOrderCall (OptimizedTicker.Symbol coin) (InvestmentAmount b)])"
  by (simp add: executeBuy_def executeBuyOrder_def split: prod.splits)

theorem executeBuy_buy_error_witness:
  "\<not> AvailableBudget (demoBot 7) < InvestmentAmount (demoBot 7) \<and>
   fst (executeBuyOrder (scriptedExchange (Inl ''rejected'') (Inr rulesABC) (alwaysSell 77))
          (demoBot 7) (OptimizedTicker.Symbol coinABC) (InvestmentAmount (demoBot 7)) []) = Inl ''rejected'' \<and>
   executeBuy (scriptedExchange (Inl ''rejected'') (Inr rulesABC) (alwaysSell 77))
     coinABC (- 7) (demoBot 7, []) = Some (demoBot 7, [BuyOrderCall ''ABCUSDT'' 7])"
proof -
  let ?ex = "scriptedExchange (Inl ''rejected'') (Inr rulesABC) (alwaysSell 77)"
  have h1: "\<not> AvailableBudget (demoBot 7) < InvestmentAmount (demoBot 7)" by (simp add: demoBot_def)
  have h2: "fst (executeBuyOrder ?ex (demoBot 7) (OptimizedTicker.Symbol coinABC)
              (InvestmentAmount (demoBot 7)) []) = Inl ''rejected''"
    by (simp add: gateway_simps demoBot_def)
  from executeBuy_buy_error [OF h1 h2, of "- 7"] h1 h2 show ?thesis
    by (simp add: demoBot_def coinABC_def)
qed

text \<open>
  C5. An accepted buy (the guard passes and the market buy succeeds) returns, and the
  bot it returns differs from the one it was given by exactly three updates made
  together: one position appended, the available budget lowered by the investment
  unit, the id counter advanced by one. This holds also when the rule lookup fails and
  when every limit-sell attempt fails; in both cases the appended position has no
  active sell order.
\<close>

theorem executeBuy_accepted_updates:
  assumes "buyAccepted ex coin (b, tr)"
  shows "\<exists>pos tr'.
           executeBuy ex coin d (b, tr) =
             Some (b\<lparr>Positions := Positions b @ [pos],
                     AvailableBudget := AvailableBudget b - InvestmentAmount b,
                     NextPositionID := NextPositionID b + 1\<rparr>, tr') \<and>
           (isl (getExchangeInfo ex
                   (tr @ [BuyOrderCall (OptimizedTicker.Symbol coin) (InvestmentAmount b), Sleep 3])
                   (OptimizedTicker.Symbol coin)) \<longrightarrow> \<not> HasActiveSellOrder pos) \<and>
           ((\<forall>t q p. isl (fst (executeLimitSellOrder ex b (OptimizedTicker.Symbol coin) q p t))) \<longrightarrow>
              \<not> HasActiveSellOrder pos)"
proof -
  let ?tr1 = "tr @ [BuyOrderCall (OptimizedTicker.Symbol coin) (InvestmentAmount b)]"
  from assms obtain orderResp where
    g: "\<not> AvailableBudget b < InvestmentAmount b" and
    o: "executeBuyOrder ex b (OptimizedTicker.Symbol coin) (InvestmentAmount b) tr = (Inr orderResp, ?tr1)"
    by (auto simp: buyAccepted_iff)
  let ?np = "newPosition b coin d orderResp"
  from executeBuy_accepted [OF g o, of d] obtain pos tr' where
    p: "placeSellOrder ex b coin ?np ?tr1 = Some (pos, tr')" and
    e: "executeBuy ex coin d (b, tr) =
          Some (b\<lparr>Positions := Positions b @ [pos],
                  AvailableBudget := AvailableBudget b - InvestmentAmount b,
                  NextPositionID := NextPositionID b + 1\<rparr>, tr')"
    by blast
  have 1: "\<not> HasActiveSellOrder pos"
    if "isl (getExchangeInfo ex (?tr1 @ [Sleep 3]) (OptimizedTicker.Symbol coin))"
  proof -
    from that placeSellOrder_lookup_fail [of ex coin ?tr1 b ?np] p have "pos = ?np"
      by (auto simp: getSymbolFilters_def)
    then show ?thesis by (simp add: newPosition_fields)
  qed
  have 2: "\<not> HasActiveSellOrder pos"
    if "\<forall>t q p. isl (fst (executeLimitSellOrder ex b (OptimizedTicker.Symbol coin) q p t))"
  proof -
    from that placeSellOrder_sell_fail [of ex b coin ?np ?tr1] p have "pos = ?np" by auto
    then show ?thesis by (simp add: newPosition_fields)
  qed
  from e 1 2 show ?thesis by auto
qed

text \<open>A filled buy on an exchange that gives no trading rules and accepts no limit sell.\<close>

theorem executeBuy_accepted_updates_witness:
  "buyAccepted (scriptedExchange (Inr filledBuy) (Inl ''no rules'') neverSell) coinABC (demoBot 7, []) \<and>
   isl (getExchangeInfo (scriptedExchange (Inr filledBuy) (Inl ''no rules'') neverSell)
          ([] @ [BuyOrderCall (OptimizedTicker.Symbol coinABC) (InvestmentAmount (demoBot 7)), Sleep 3])
          (OptimizedTicker.Symbol coinABC)) \<and>
   (\<forall>t q p. isl (fst (executeLimitSellOrder (scriptedExchange (Inr filledBuy) (Inl ''no rules'') neverSell)
                        (demoBot 7) (OptimizedTicker.Symbol coinABC) q p t))) \<and>
   (\<exists>pos tr'.
      executeBuy (scriptedExchange (Inr filledBuy) (Inl ''no rules'') neverSell) coinABC (- 7) (demoBot 7, []) =
        Some ((demoBot 7)\<lparr>Positions := Positions (demoBot 7) @ [pos],
                AvailableBudget := AvailableBudget (demoBot 7) - InvestmentAmount (demoBot 7),
                NextPositionID := NextPositionID (demoBot 7) + 1\<rparr>, tr') \<and>
      \<not> HasActiveSellOrder pos)"
proof -
  let ?ex = "scriptedExchange (Inr filledBuy) (Inl ''no rules'') neverSell"
  have h1: "buyAccepted ?ex coinABC (demoBot 7, [])"
    by (simp add: buyAccepted_def gateway_simps demoBot_def)
  have h2: "isl (getExchangeInfo ?ex
          ([] @ [BuyOrderCall (OptimizedTicker.Symbol coinABC) (InvestmentAmount (demoBot 7)), Sleep 3])
          (OptimizedTicker.Symbol coinABC))"
    by (simp add: scriptedExchange_def)
  have h3: "\<forall>t q p. isl (fst (executeLimitSellOrder ?ex (demoBot 7) (OptimizedTicker.Symbol coinABC) q p t))"
    by (simp add: gateway_simps)
  from executeBuy_accepted_updates [OF h1, of "- 7"] h2 h3 have
    "\<exists>pos tr'.
      executeBuy ?ex coinABC (- 7) (demoBot 7, []) =
        Some ((demoBot 7)\<lparr>Positions := Positions (demoBot 7) @ [pos],
                AvailableBudget := AvailableBudget (demoBot 7) - InvestmentAmount (demoBot 7),
                NextPositionID := NextPositionID (demoBot 7) + 1\<rparr>, tr') \<and>
      \<not> HasActiveSellOrder pos"
    by blast
  with h1 h2 h3 show ?thesis by (intro conjI)
qed

text \<open>
  C6. \<open>executeBuy\<close> has no error result, and no numeric parse failure of the order
  response stops it: a number that does not parse is read as 0. For an accepted buy
  the position is created; its quantity is the parsed executed quantity, 0 when that is
  unparsable; its buy price is the volume-weighted average of the fills, the sum of
  price times quantity divided by the sum of the quantities when that sum is positive,
  and it is the snapshot's last price exactly when this average is 0 (or there is no
  positive total quantity), in particular when there are no fills or no fill has a
  parsable price. A fill with an unparsable price beside parsable ones does not cause
  the fallback: it enters the average with the price 0.
\<close>

theorem executeBuy_parse_defaults:
  assumes "\<not> AvailableBudget b < InvestmentAmount b"
    and "fst (executeBuyOrder ex b (OptimizedTicker.Symbol coin) (InvestmentAmount b) tr) = Inr orderResp"
  shows "\<exists>pos tr'.
           executeBuy ex coin d (b, tr) =
             Some (b\<lparr>Positions := Positions b @ [pos],
                     AvailableBudget := AvailableBudget b - InvestmentAmount b,
                     NextPositionID := NextPositionID b + 1\<rparr>, tr') \<and>
           Quantity pos = (case ParseFloat (ExecutedQty orderResp) of None \<Rightarrow> 0 | Some v \<Rightarrow> v) \<and>
           BuyPrice pos =
             (let num = (\<lambda>s. case ParseFloat s of None \<Rightarrow> 0 | Some v \<Rightarrow> v);
                  totalValue = (\<Sum>f\<leftarrow>Fills orderResp. num (Price f) * num (Qty f));
                  totalQty = (\<Sum>f\<leftarrow>Fills orderResp. num (Qty f));
                  avg = (if 0 < totalQty then totalValue / totalQty else 0)
              in if avg = 0 then LastPrice coin else avg) \<and>
           (ParseFloat (ExecutedQty orderResp) = None \<longrightarrow> Quantity pos = 0) \<and>
           (Fills orderResp = [] \<longrightarrow> BuyPrice pos = LastPrice coin) \<and>
           ((\<forall>f\<in>set (Fills orderResp). ParseFloat (Price f) = None) \<longrightarrow> BuyPrice pos = LastPrice coin)"
proof -
  obtain tr1 where o: "executeBuyOrder ex b (OptimizedTicker.Symbol coin) (InvestmentAmount b) tr = (Inr orderResp, tr1)"
    using assms(2) by (cases "executeBuyOrder ex b (OptimizedTicker.Symbol coin) (InvestmentAmount b) tr") simp
  let ?np = "newPosition b coin d orderResp"
  from executeBuy_accepted [OF assms(1) o, of d] obtain pos tr' where
    p: "placeSellOrder ex b coin ?np tr1 = Some (pos, tr')" and
    e: "executeBuy ex coin d (b, tr) =
          Some (b\<lparr>Positions := Positions b @ [pos],
                  AvailableBudget := AvailableBudget b - InvestmentAmount b,
                  NextPositionID := NextPositionID b + 1\<rparr>, tr')"
    by blast
  have q: "Quantity pos = Quantity ?np \<and> BuyPrice pos = BuyPrice ?np"
    by (rule placeSellOrder_cases [of ex b coin ?np tr1]) (use p in auto)
  have num: "(\<lambda>s. case ParseFloat s of None \<Rightarrow> 0 | Some v \<Rightarrow> v) = parseOrZero"
    by (simp add: fun_eq_iff parseOrZero_def)
  have 1: "Quantity pos = (case ParseFloat (ExecutedQty orderResp) of None \<Rightarrow> 0 | Some v \<Rightarrow> v)"
    using q by (simp add: newPosition_fields parseOrZero_def)
  have 2: "BuyPrice pos =
             (let num = (\<lambda>s. case ParseFloat s of None \<Rightarrow> 0 | Some v \<Rightarrow> v);
                  totalValue = (\<Sum>f\<leftarrow>Fills orderResp. num (Price f) * num (Qty f));
                  totalQty = (\<Sum>f\<leftarrow>Fills orderResp. num (Qty f));
                  avg = (if 0 < totalQty then totalValue / totalQty else 0)
              in if avg = 0 then LastPrice coin else avg)"
    using q unfolding num by (simp add: newPosition_fields avgFillPrice_formula Let_def)
  have 3: "ParseFloat (ExecutedQty orderResp) = None \<longrightarrow> Quantity pos = 0"
    using 1 by simp
  have 4: "Fills orderResp = [] \<longrightarrow> BuyPrice pos = LastPrice coin"
    using q by (simp add: newPosition_fields avgFillPrice_formula Let_def)
  have 5: "(\<forall>f\<in>set (Fills orderResp). ParseFloat (Price f) = None) \<longrightarrow> BuyPrice pos = LastPrice coin"
    using q avgFillPrice_fallback [of orderResp coin] by (simp add: newPosition_fields)
  show ?thesis
    by (rule exI [of _ pos], rule exI [of _ tr']) (intro conjI e 1 2 3 4 5)
qed

text \<open>
  A buy answered with the executed quantity \<open>abc\<close> and no fills, and one answered with
  two fills of 0.35 each, the first with the price \<open>abc\<close> and the second with 10.0:
  the first position has the quantity 0 and the last price 10 as buy price, the second
  the buy price (0 * 0.35 + 10 * 0.35) / 0.7 = 5.
\<close>

theorem executeBuy_parse_defaults_witness:
  "\<not> AvailableBudget (demoBot 7) < InvestmentAmount (demoBot 7) \<and>
   fst (executeBuyOrder (scriptedExchange (Inr garbledBuy) (Inl ''no rules'') neverSell)
          (demoBot 7) (OptimizedTicker.Symbol coinABC) (InvestmentAmount (demoBot 7)) []) = Inr garbledBuy \<and>
   ParseFloat (ExecutedQty garbledBuy) = None \<and>
   Fills garbledBuy = [] \<and>
   (\<exists>pos tr'.
      executeBuy (scriptedExchange (Inr garbledBuy) (Inl ''no rules'') neverSell) coinABC (- 7) (demoBot 7, []) =
        Some ((demoBot 7)\<lparr>Positions := Positions (demoBot 7) @ [pos],
                AvailableBudget := AvailableBudget (demoBot 7) - InvestmentAmount (demoBot 7),
                NextPositionID := NextPositionID (demoBot 7) + 1\<rparr>, tr') \<and>
      Quantity pos = 0 \<and> BuyPrice pos = LastPrice coinABC) \<and>
   fst (executeBuyOrder (scriptedExchange (Inr mixedBuy) (Inl ''no rules'') neverSell)
          (demoBot 7) (OptimizedTicker.Symbol coinABC) (InvestmentAmount (demoBot 7)) []) = Inr mixedBuy \<and>
   (\<exists>pos tr'.
      executeBuy (scriptedExchange (Inr mixedBuy) (Inl ''no rules'') neverSell) coinABC (- 7) (demoBot 7, []) =
        Some ((demoBot 7)\<lparr>Positions := Positions (demoBot 7) @ [pos],
                AvailableBudget := AvailableBudget (demoBot 7) - InvestmentAmount (demoBot 7),
                NextPositionID := NextPositionID (demoBot 7) + 1\<rparr>, tr') \<and>
      Quantity pos = 7 / 10 \<and> BuyPrice pos = 5)"
proof -
  let ?ex = "scriptedExchange (Inr garbledBuy) (Inl ''no rules'') neverSell"
  let ?mx = "scriptedExchange (Inr mixedBuy) (Inl ''no rules'') neverSell"
  have h1: "\<not> AvailableBudget (demoBot 7) < InvestmentAmount (demoBot 7)" by (simp add: demoBot_def)
  have h2: "fst (executeBuyOrder ?ex (demoBot 7) (OptimizedTicker.Symbol coinABC)
              (InvestmentAmount (demoBot 7)) []) = Inr garbledBuy"
    by (simp add: gateway_simps demoBot_def)
  have h3: "ParseFloat (ExecutedQty garbledBuy) = None" by (simp add: garbledBuy_def parse_simps)
  have h4: "Fills garbledBuy = []" by (simp add: garbledBuy_def)
  then have h5: "\<forall>f\<in>set (Fills garbledBuy). ParseFloat (Price f) = None" by simp
  have h6: "fst (executeBuyOrder ?mx (demoBot 7) (OptimizedTicker.Symbol coinABC)
              (InvestmentAmount (demoBot 7)) []) = Inr mixedBuy"
    by (simp add: gateway_simps demoBot_def)
  from executeBuy_parse_defaults [OF h1 h2, of "- 7"] h3 h4 h5 have a:
    "\<exists>pos tr'.
      executeBuy ?ex coinABC (- 7) (demoBot 7, []) =
        Some ((demoBot 7)\<lparr>Positions := Positions (demoBot 7) @ [pos],
                AvailableBudget := AvailableBudget (demoBot 7) - InvestmentAmount (demoBot 7),
                NextPositionID := NextPositionID (demoBot 7) + 1\<rparr>, tr') \<and>
      Quantity pos = 0 \<and> BuyPrice pos = LastPrice coinABC"
    by blast
  have v: "(case ParseFloat (ExecutedQty mixedBuy) of None \<Rightarrow> 0 | Some v \<Rightarrow> v) = 7 / 10"
    by (simp add: mixedBuy_def parse_simps)
  have w: "(let num = (\<lambda>s. case ParseFloat s of None \<Rightarrow> 0 | Some v \<Rightarrow> v);
                totalValue = (\<Sum>f\<leftarrow>Fills mixedBuy. num (Price f) * num (Qty f));
                totalQty = (\<Sum>f\<leftarrow>Fills mixedBuy. num (Qty f));
                avg = (if 0 < totalQty then totalValue / totalQty else 0)
            in if avg = 0 then LastPrice coinABC else avg) = 5"
    by (simp add: mixedBuy_def parse_simps Let_def)
  from executeBuy_parse_defaults [OF h1 h6, of "- 7"] have b:
    "\<exists>pos tr'.
      executeBuy ?mx coinABC (- 7) (demoBot 7, []) =
        Some ((demoBot 7)\<lparr>Positions := Positions (demoBot 7) @ [pos],
                AvailableBudget := AvailableBudget (demoBot 7) - InvestmentAmount (demoBot 7),
                NextPositionID := NextPositionID (demoBot 7) + 1\<rparr>, tr') \<and>
      Quantity pos = 7 / 10 \<and> BuyPrice pos = 5"
    unfolding v w by blast
  from h1 h2 h3 h4 a h6 b show ?thesis by (intro conjI)
qed

text \<open>
  The unparsable executed quantity does produce a position, silently: the call returns
  normally, the budget is spent, and the position records the quantity 0. And an
  unparsable fill price does not always fall back to the last price 10: beside a
  parsable fill it is averaged in as 0 and the buy price is 5.
\<close>

theorem executeBuy_unparsable_quantity_position:
  "ParseFloat (ExecutedQty garbledBuy) = None \<and>
   executeBuy (scriptedExchange (Inr garbledBuy) (Inl ''no rules'') neverSell) coinABC (- 7) (demoBot 7, [])
   = Some ((demoBot 7)\<lparr>Positions := [\<lparr>ID = 1, Symbol = ''ABCUSDT'', BuyPrice = 10, Quantity = 0,
       InvestedAmount = 7, TargetSellPrice = 21 / 2, DropPercentage = - 7, CurrentValue = 0,
       SellOrderID = 0, HasActiveSellOrder = False\<rparr>], AvailableBudget := 0, NextPositionID := 2\<rparr>,
     [BuyOrderCall ''ABCUSDT'' 7, Sleep 3, SymbolFiltersCall ''ABCUSDT'']) \<and>
   ParseFloat (Price (hd (Fills mixedBuy))) = None \<and> LastPrice coinABC = 10 \<and>
   executeBuy (scriptedExchange (Inr mixedBuy) (Inl ''no rules'') neverSell) coinABC (- 7) (demoBot 7, [])
   = Some ((demoBot 7)\<lparr>Positions := [\<lparr>ID = 1, Symbol = ''ABCUSDT'', BuyPrice = 5, Quantity = 7 / 10,
       InvestedAmount = 7, TargetSellPrice = 21 / 4, DropPercentage = - 7, CurrentValue = 7 / 2,
       SellOrderID = 0, HasActiveSellOrder = False\<rparr>], AvailableBudget := 0, NextPositionID := 2\<rparr>,
     [BuyOrderCall ''ABCUSDT'' 7, Sleep 3, SymbolFiltersCall ''ABCUSDT''])"
  by (simp add: eval_simps)

section \<open>Retry controller\<close>

text \<open>
  C7. The retry loop around the limit sell, started at attempt 1, makes at most 3
  attempts; it stops at the first attempt that succeeds and returns that answer; it
  sleeps 2 seconds between two attempts and not after the last; when all three attempts
  fail it returns the error of the third. An operation that fails twice and then
  succeeds is attempted exactly 3 times and its success is returned; one that fails
  three times is attempted exactly 3 times and its last error is returned.
\<close>

theorem sell_retry_controller:
  "let attempt = (\<lambda>t. fst (executeLimitSellOrder ex b symbol q p t));
       call = LimitSellOrderCall symbol q p;
       result = sellRetryLoop ex b symbol q p 1 (None, tr)
   in length (filter isLimitSell (snd result)) \<le> length (filter isLimitSell tr) + 3 \<and>
      (attempt tr = Inr r \<longrightarrow> result = (Some (Inr r), tr @ [call])) \<and>
      (attempt tr = Inl e1 \<and> attempt (tr @ [call, Sleep 2]) = Inr r \<longrightarrow>
         result = (Some (Inr r), tr @ [call, Sleep 2, call])) \<and>
      (attempt tr = Inl e1 \<and> attempt (tr @ [call, Sleep 2]) = Inl e2 \<and>
       attempt (tr @ [call, Sleep 2, call, Sleep 2]) = Inr r \<longrightarrow>
         result = (Some (Inr r), tr @ [call, Sleep 2, call, Sleep 2, call])) \<and>
      (attempt tr = Inl e1 \<and> attempt (tr @ [call, Sleep 2]) = Inl e2 \<and>
       attempt (tr @ [call, Sleep 2, call, Sleep 2]) = Inl e3 \<longrightarrow>
         result = (Some (Inl e3), tr @ [call, Sleep 2, call, Sleep 2, call]))"
  unfolding Let_def by (simp add: sellRetryLoop_first split: sum.splits)

text \<open>
  Four exchanges: one accepts at once, one after one failure, one after two failures,
  one never (its third error differs from the first two).
\<close>

theorem sell_retry_controller_witness:
  "sellRetryLoop (scriptedExchange (Inr filledBuy) (Inr rulesABC) (sellAfter 0))
     (demoBot 7) ''ABCUSDT'' 0.7 10.5 1 (None, [])
     = (Some (Inr (sellAccepted 77)), [LimitSellOrderCall ''ABCUSDT'' 0.7 10.5]) \<and>
   sellRetryLoop (scriptedExchange (Inr filledBuy) (Inr rulesABC) (sellAfter 1))
     (demoBot 7) ''ABCUSDT'' 0.7 10.5 1 (None, [])
     = (Some (Inr (sellAccepted 77)),
        [LimitSellOrderCall ''ABCUSDT'' 0.7 10.5, Sleep 2, LimitSellOrderCall ''ABCUSDT'' 0.7 10.5]) \<and>
   sellRetryLoop (scriptedExchange (Inr filledBuy) (Inr rulesABC) (sellAfter 2))
     (demoBot 7) ''ABCUSDT'' 0.7 10.5 1 (None, [])
     = (Some (Inr (sellAccepted 77)),
        [LimitSellOrderCall ''ABCUSDT'' 0.7 10.5, Sleep 2, LimitSellOrderCall ''ABCUSDT'' 0.7 10.5, Sleep 2,
         LimitSellOrderCall ''ABCUSDT'' 0.7 10.5]) \<and>
   sellRetryLoop (scriptedExchange (Inr filledBuy) (Inr rulesABC) neverSell)
     (demoBot 7) ''ABCUSDT'' 0.7 10.5 1 (None, [])
     = (Some (Inl ''last''),
        [LimitSellOrderCall ''ABCUSDT'' 0.7 10.5, Sleep 2, LimitSellOrderCall ''ABCUSDT'' 0.7 10.5, Sleep 2,
         LimitSellOrderCall ''ABCUSDT'' 0.7 10.5])"
  using
    sell_retry_controller [where ex = "scriptedExchange (Inr filledBuy) (Inr rulesABC) (sellAfter 0)"
      and b = "demoBot 7" and symbol = "''ABCUSDT''" and q = "0.7" and p = "10.5" and tr = "[]"
      and r = "sellAccepted 77"]
    sell_retry_controller [where ex = "scriptedExchange (Inr filledBuy) (Inr rulesABC) (sellAfter 1)"
      and b = "demoBot 7" and symbol = "''ABCUSDT''" and q = "0.7" and p = "10.5" and tr = "[]"
      and r = "sellAccepted 77" and ?e1.0 = "''busy''"]
    sell_retry_controller [where ex = "scriptedExchange (Inr filledBuy) (Inr rulesABC) (sellAfter 2)"
      and b = "demoBot 7" and symbol = "''ABCUSDT''" and q = "0.7" and p = "10.5" and tr = "[]"
      and r = "sellAccepted 77" and ?e1.0 = "''busy''" and ?e2.0 = "''busy''"]
    sell_retry_controller [where ex = "scriptedExchange (Inr filledBuy) (Inr rulesABC) neverSell"
      and b = "demoBot 7" and symbol = "''ABCUSDT''" and q = "0.7" and p = "10.5" and tr = "[]"
      and ?e1.0 = "''early''" and ?e2.0 = "''early''" and ?e3.0 = "''last''"]
  by (simp add: Let_def gateway_simps demoBot_def)

section \<open>Sell-price normalizer\<close>


text \<open>
  C9. The normalizer returns the price unchanged when the tick-size string is empty,
  is \<open>0\<close>, is unparsable, or parses to zero.
\<close>

theorem roundToTickSize_noop:
  "roundToTickSize p [] = p \<and> roundToTickSize p ''0'' = p \<and>
   (ParseFloat t = None \<longrightarrow> roundToTickSize p t = p) \<and>
   (ParseFloat t = Some 0 \<longrightarrow> roundToTickSize p t = p)"
  by (simp add: roundToTickSize_def parse_simps)

theorem roundToTickSize_noop_witness:
  "ParseFloat ''abc'' = None \<and> roundToTickSize 10.5 ''abc'' = 10.5 \<and>
   ParseFloat ''0.00'' = Some 0 \<and> roundToTickSize 10.5 ''0.00'' = 10.5"
proof -
  have h1: "ParseFloat ''abc'' = None" by (simp add: parse_simps)
  have h2: "ParseFloat ''0.00'' = Some 0" by (simp add: parse_simps)
  from roundToTickSize_noop [of "10.5" "''abc''"] roundToTickSize_noop [of "10.5" "''0.00''"] h1 h2
  show ?thesis by simp
qed

section \<open>Sell-order fields of a position\<close>

text \<open>
  C10. The position appended by an accepted buy has its two sell-order fields set
  together, and only when a limit sell was accepted: if \<open>HasActiveSellOrder\<close> is true
  then the rule lookup succeeded, \<open>SellOrderID\<close> is the order id of an accepted limit
  sell for the full quantity at the tick-normalized price, and \<open>TargetSellPrice\<close> is
  that normalized price; otherwise \<open>SellOrderID\<close> is 0 and \<open>TargetSellPrice\<close> is the
  buy price times 1.05. Hence a nonzero \<open>SellOrderID\<close> implies an active sell order;
  the converse holds whenever the exchange's order id is not 0.
\<close>

theorem executeBuy_sell_order_fields:
  assumes "\<not> AvailableBudget b < InvestmentAmount b"
    and "fst (executeBuyOrder ex b (OptimizedTicker.Symbol coin) (InvestmentAmount b) tr) = Inr orderResp"
  shows "\<exists>pos tr'.
           executeBuy ex coin d (b, tr) =
             Some (b\<lparr>Positions := Positions b @ [pos],
                     AvailableBudget := AvailableBudget b - InvestmentAmount b,
                     NextPositionID := NextPositionID b + 1\<rparr>, tr') \<and>
           (SellOrderID pos \<noteq> 0 \<longrightarrow> HasActiveSellOrder pos) \<and>
           (HasActiveSellOrder pos \<longrightarrow>
              (\<exists>filters (resp::OrderResponse) t.
                  getExchangeInfo ex
                    (tr @ [BuyOrderCall (OptimizedTicker.Symbol coin) (InvestmentAmount b), Sleep 3])
                    (OptimizedTicker.Symbol coin) = Inr filters \<and>
                  fst (executeLimitSellOrder ex b (OptimizedTicker.Symbol coin)
                         (parseOrZero (ExecutedQty orderResp))
                         (roundToTickSize (avgFillPrice orderResp coin * 1.05) (TickSize filters)) t) = Inr resp \<and>
                  SellOrderID pos = OrderID resp \<and>
                  TargetSellPrice pos = roundToTickSize (avgFillPrice orderResp coin * 1.05) (TickSize filters))) \<and>
           (\<not> HasActiveSellOrder pos \<longrightarrow>
              SellOrderID pos = 0 \<and> TargetSellPrice pos = avgFillPrice orderResp coin * 1.05)"
proof -
  let ?tr1 = "tr @ [BuyOrderCall (OptimizedTicker.Symbol coin) (InvestmentAmount b)]"
  have o: "executeBuyOrder ex b (OptimizedTicker.Symbol coin) (InvestmentAmount b) tr = (Inr orderResp, ?tr1)"
    using assms(2) by (simp add: executeBuyOrder_def split: if_splits)
  let ?np = "newPosition b coin d orderResp"
  from executeBuy_accepted [OF assms(1) o, of d] obtain pos tr' where
    p: "placeSellOrder ex b coin ?np ?tr1 = Some (pos, tr')" and
    e: "executeBuy ex coin d (b, tr) =
          Some (b\<lparr>Positions := Positions b @ [pos],
                  AvailableBudget := AvailableBudget b - InvestmentAmount b,
                  NextPositionID := NextPositionID b + 1\<rparr>, tr')"
    by blast
  show ?thesis
  proof (rule placeSellOrder_cases [of ex b coin ?np ?tr1])
    fix tr'' assume "placeSellOrder ex b coin ?np ?tr1 = Some (?np, tr'')"
    with p have pos: "pos = ?np" by simp
    have a: "SellOrderID pos \<noteq> 0 \<longrightarrow> HasActiveSellOrder pos"
      using pos by (simp add: newPosition_fields)
    have c: "\<not> HasActiveSellOrder pos \<longrightarrow>
              SellOrderID pos = 0 \<and> TargetSellPrice pos = avgFillPrice orderResp coin * 1.05"
      using pos by (simp add: newPosition_fields)
    have h: "\<not> HasActiveSellOrder pos" using pos by (simp add: newPosition_fields)
    show ?thesis
      by (rule exI [of _ pos], rule exI [of _ tr']) (use h in \<open>intro conjI e a c; simp\<close>)
  next
    fix filters and resp :: OrderResponse and tr'' t
    assume 1: "getExchangeInfo ex (?tr1 @ [Sleep 3]) (OptimizedTicker.Symbol coin) = Inr filters"
      and 2: "fst (executeLimitSellOrder ex b (OptimizedTicker.Symbol coin) (Quantity ?np)
             (roundToTickSize (TargetSellPrice ?np) (TickSize filters)) t) = Inr resp"
      and 3: "placeSellOrder ex b coin ?np ?tr1 =
         Some (?np\<lparr>SellOrderID := OrderID resp, HasActiveSellOrder := True,
                 TargetSellPrice := roundToTickSize (TargetSellPrice ?np) (TickSize filters)\<rparr>, tr'')"
    from 3 p have pos: "pos = ?np\<lparr>SellOrderID := OrderID resp, HasActiveSellOrder := True,
                 TargetSellPrice := roundToTickSize (TargetSellPrice ?np) (TickSize filters)\<rparr>"
      by simp
    have a: "SellOrderID pos \<noteq> 0 \<longrightarrow> HasActiveSellOrder pos"
      using pos by simp
    have c: "\<not> HasActiveSellOrder pos \<longrightarrow>
              SellOrderID pos = 0 \<and> TargetSellPrice pos = avgFillPrice orderResp coin * 1.05"
      using pos by simp
    have w: "\<exists>filters (resp::OrderResponse) t.
                  getExchangeInfo ex
                    (tr @ [BuyOrderCall (OptimizedTicker.Symbol coin) (InvestmentAmount b), Sleep 3])
                    (OptimizedTicker.Symbol coin) = Inr filters \<and>
                  fst (executeLimitSellOrder ex b (OptimizedTicker.Symbol coin)
                         (parseOrZero (ExecutedQty orderResp))
                         (roundToTickSize (avgFillPrice orderResp coin * 1.05) (TickSize filters)) t) = Inr resp \<and>
                  SellOrderID pos = OrderID resp \<and>
                  TargetSellPrice pos = roundToTickSize (avgFillPrice orderResp coin * 1.05) (TickSize filters)"
      using 1 2 pos by (intro exI [of _ filters] exI [of _ resp] exI [of _ t]) (simp add: newPosition_fields)
    show ?thesis
      by (rule exI [of _ pos], rule exI [of _ tr']) (intro conjI e a c impI w)
  qed
qed

text \<open>
  The same filled buy on an exchange that accepts the limit sell under the id 77, and
  on one that refuses every limit sell.
\<close>

theorem executeBuy_sell_order_fields_witness:
  "\<not> AvailableBudget (demoBot 7) < InvestmentAmount (demoBot 7) \<and>
   fst (executeBuyOrder (scriptedExchange (Inr filledBuy) (Inr rulesABC) (alwaysSell 77))
          (demoBot 7) (OptimizedTicker.Symbol coinABC) (InvestmentAmount (demoBot 7)) []) = Inr filledBuy \<and>
   (\<exists>pos tr'.
      executeBuy (scriptedExchange (Inr filledBuy) (Inr rulesABC) (alwaysSell 77))
          coinABC (- 7) (demoBot 7, []) =
        Some ((demoBot 7)\<lparr>Positions := Positions (demoBot 7) @ [pos],
                AvailableBudget := AvailableBudget (demoBot 7) - InvestmentAmount (demoBot 7),
                NextPositionID := NextPositionID (demoBot 7) + 1\<rparr>, tr') \<and>
      SellOrderID pos \<noteq> 0 \<and> HasActiveSellOrder pos \<and>
      TargetSellPrice pos = roundToTickSize (avgFillPrice filledBuy coinABC * 1.05) (TickSize rulesABC)) \<and>
   fst (executeBuyOrder (scriptedExchange (Inr filledBuy) (Inr rulesABC) neverSell)
          (demoBot 7) (OptimizedTicker.Symbol coinABC) (InvestmentAmount (demoBot 7)) []) = Inr filledBuy \<and>
   (\<exists>pos tr'.
      executeBuy (scriptedExchange (Inr filledBuy) (Inr rulesABC) neverSell)
          coinABC (- 7) (demoBot 7, []) =
        Some ((demoBot 7)\<lparr>Positions := Positions (demoBot 7) @ [pos],
                AvailableBudget := AvailableBudget (demoBot 7) - InvestmentAmount (demoBot 7),
                NextPositionID := NextPositionID (demoBot 7) + 1\<rparr>, tr') \<and>
      \<not> HasActiveSellOrder pos \<and> SellOrderID pos = 0 \<and>
      TargetSellPrice pos = avgFillPrice filledBuy coinABC * 1.05)"
proof -
  let ?good = "scriptedExchange (Inr filledBuy) (Inr rulesABC) (alwaysSell 77)"
  let ?down = "scriptedExchange (Inr filledBuy) (Inr rulesABC) neverSell"
  let ?upd = "\<lambda>pos. (demoBot 7)\<lparr>Positions := Positions (demoBot 7) @ [pos],
                AvailableBudget := AvailableBudget (demoBot 7) - InvestmentAmount (demoBot 7),
                NextPositionID := NextPositionID (demoBot 7) + 1\<rparr>"
  have h1: "\<not> AvailableBudget (demoBot 7) < InvestmentAmount (demoBot 7)" by (simp add: demoBot_def)
  have h2: "fst (executeBuyOrder ?good (demoBot 7) (OptimizedTicker.Symbol coinABC)
              (InvestmentAmount (demoBot 7)) []) = Inr filledBuy"
    by (simp add: gateway_simps demoBot_def)
  have h3: "fst (executeBuyOrder ?down (demoBot 7) (OptimizedTicker.Symbol coinABC)
              (InvestmentAmount (demoBot 7)) []) = Inr filledBuy"
    by (simp add: gateway_simps demoBot_def)
  have rules: "getExchangeInfo ?good t s = Inr rulesABC" for t s
    by (simp add: scriptedExchange_def)
  have a: "\<exists>pos tr'. executeBuy ?good coinABC (- 7) (demoBot 7, []) = Some (?upd pos, tr') \<and>
      SellOrderID pos \<noteq> 0 \<and> HasActiveSellOrder pos \<and>
      TargetSellPrice pos = roundToTickSize (avgFillPrice filledBuy coinABC * 1.05) (TickSize rulesABC)"
  proof -
    from executeBuy_sell_order_fields [OF h1 h2, of "- 7"] obtain pos tr' where
      e: "executeBuy ?good coinABC (- 7) (demoBot 7, []) = Some (?upd pos, tr')" and
      i: "HasActiveSellOrder pos \<longrightarrow>
            (\<exists>filters (resp::OrderResponse) t.
               getExchangeInfo ?good
                 ([] @ [BuyOrderCall (OptimizedTicker.Symbol coinABC) (InvestmentAmount (demoBot 7)), Sleep 3])
                 (OptimizedTicker.Symbol coinABC) = Inr filters \<and>
               fst (executeLimitSellOrder ?good (demoBot 7) (OptimizedTicker.Symbol coinABC)
                      (parseOrZero (ExecutedQty filledBuy))
                      (roundToTickSize (avgFillPrice filledBuy coinABC * 1.05) (TickSize filters)) t) = Inr resp \<and>
               SellOrderID pos = OrderID resp \<and>
               TargetSellPrice pos = roundToTickSize (avgFillPrice filledBuy coinABC * 1.05) (TickSize filters))"
      by (elim exE conjE)
    have "executeBuy ?good coinABC (- 7) (demoBot 7, []) =
        Some (?upd \<lparr>ID = 1, Symbol = ''ABCUSDT'', BuyPrice = 10, Quantity = 7 / 10,
           InvestedAmount = 7, TargetSellPrice = 21 / 2, DropPercentage = - 7, CurrentValue = 7,
           SellOrderID = 77, HasActiveSellOrder = True\<rparr>,
         [BuyOrderCall ''ABCUSDT'' 7, Sleep 3, SymbolFiltersCall ''ABCUSDT'',
          LimitSellOrderCall ''ABCUSDT'' (7 / 10) (21 / 2)])"
      by (simp add: eval_simps)
    with e have p: "SellOrderID pos = 77" "HasActiveSellOrder pos" by (simp_all add: demoBot_def)
    with i rules have "TargetSellPrice pos =
        roundToTickSize (avgFillPrice filledBuy coinABC * 1.05) (TickSize rulesABC)"
      by auto
    with e p show ?thesis by (intro exI [of _ pos] exI [of _ tr']) simp
  qed
  have b: "\<exists>pos tr'. executeBuy ?down coinABC (- 7) (demoBot 7, []) = Some (?upd pos, tr') \<and>
      \<not> HasActiveSellOrder pos \<and> SellOrderID pos = 0 \<and>
      TargetSellPrice pos = avgFillPrice filledBuy coinABC * 1.05"
  proof -
    from executeBuy_sell_order_fields [OF h1 h3, of "- 7"] obtain pos tr' where
      e: "executeBuy ?down coinABC (- 7) (demoBot 7, []) = Some (?upd pos, tr')" and
      n: "\<not> HasActiveSellOrder pos \<longrightarrow>
            SellOrderID pos = 0 \<and> TargetSellPrice pos = avgFillPrice filledBuy coinABC * 1.05"
      by (elim exE conjE)
    have "executeBuy ?down coinABC (- 7) (demoBot 7, []) =
        Some (?upd \<lparr>ID = 1, Symbol = ''ABCUSDT'', BuyPrice = 10, Quantity = 7 / 10,
           InvestedAmount = 7, TargetSellPrice = 21 / 2, DropPercentage = - 7, CurrentValue = 7,
           SellOrderID = 0, HasActiveSellOrder = False\<rparr>,
         [BuyOrderCall ''ABCUSDT'' 7, Sleep 3, SymbolFiltersCall ''ABCUSDT'',
          LimitSellOrderCall ''ABCUSDT'' (7 / 10) (21 / 2), Sleep 2,
          LimitSellOrderCall ''ABCUSDT'' (7 / 10) (21 / 2), Sleep 2,
          LimitSellOrderCall ''ABCUSDT'' (7 / 10) (21 / 2)])"
      by (simp add: eval_simps)
    with e have "\<not> HasActiveSellOrder pos" by (simp add: demoBot_def)
    with e n show ?thesis by (intro exI [of _ pos] exI [of _ tr']) simp
  qed
  from h1 h2 a h3 b show ?thesis by (intro conjI)
qed

text \<open>
  An exchange that accepts the limit sell and reports the order id 0: the position has
  an active sell order and the sell-order id 0.
\<close>

theorem executeBuy_active_sell_order_zero_id:
  "executeBuy (scriptedExchange (Inr filledBuy) (Inr rulesABC) (alwaysSell 0)) coinABC (- 7) (demoBot 7, [])
   = Some ((demoBot 7)\<lparr>Positions := [\<lparr>ID = 1, Symbol = ''ABCUSDT'', BuyPrice = 10, Quantity = 7 / 10,
       InvestedAmount = 7, TargetSellPrice = 21 / 2, DropPercentage = - 7, CurrentValue = 7,
       SellOrderID = 0, HasActiveSellOrder = True\<rparr>], AvailableBudget := 0, NextPositionID := 2\<rparr>,
     [BuyOrderCall ''ABCUSDT'' 7, Sleep 3, SymbolFiltersCall ''ABCUSDT'',
      LimitSellOrderCall ''ABCUSDT'' (7 / 10) (21 / 2)])"
  by (simp add: eval_simps)

end
